theory Spec2Isabelle
  imports Complex_Main "HOL-Library.Option_ord"
begin

text \<open>
  A model of the dashboard controller of the task manager: the dashboard aggregations
  (task statistics, performance insights, priority distribution, overdue analysis, project
  progress, recent activity), the time-tracking report with its rendering as delimited
  text, and the bulk mutation. The two collections are lists of documents; an aggregation
  stage is a function on lists; the system clock is an explicit state; what a handler
  throws, or the database rejects, is a value.
\<close>

section \<open>Values of the host language\<close>

text \<open>
  A JavaScript Number is a finite value or one of the three special values. Finite
  arithmetic is carried out on exact rationals (the rounding of binary floating point and
  the sign of zero are not represented); what is represented exactly is where a division
  leaves the finite numbers: \<open>0 / 0\<close> is \<open>NaN\<close> and \<open>x / 0\<close> is an infinity.
\<close>

datatype jsnum = Fin rat | PosInf | NegInf | NaN

text \<open>What a percentage field of the response holds: a number or a string.\<close>

datatype jsval = JNumber jsnum | JString string

text \<open>The \<open>/\<close> operator on two finite operands.\<close>

definition js_div :: "rat \<Rightarrow> rat \<Rightarrow> jsnum" where
  "js_div a b =
     (if b = 0 then (if a = 0 then NaN else if 0 < a then PosInf else NegInf)
      else Fin (a / b))"

text \<open>The \<open>*\<close> operator with a finite, positive right operand.\<close>

fun js_times :: "jsnum \<Rightarrow> rat \<Rightarrow> jsnum" where
  "js_times (Fin a) k = Fin (a * k)"
| "js_times PosInf k = PosInf"
| "js_times NegInf k = NegInf"
| "js_times NaN k = NaN"

fun digit_char :: "nat \<Rightarrow> char" where
  "digit_char n = ''0123456789'' ! (n mod 10)"

fun show_nat :: "nat \<Rightarrow> string" where
  "show_nat n = (if n < 10 then [digit_char n] else show_nat (n div 10) @ [digit_char n])"

text \<open>
  \<open>Number.prototype.toFixed(1)\<close>: the special values print by name; a finite value is
  rounded to the nearest tenth (a tie takes the larger candidate), its sign written first.
  (Values of magnitude \<open>10^21\<close> and more print in exponent form in the host language; no
  count or percentage of this program reaches them.)
\<close>

definition tenths :: "rat \<Rightarrow> nat" where
  "tenths x = nat \<lfloor>x * 10 + 1 / 2\<rfloor>"

fun toFixed1 :: "jsnum \<Rightarrow> string" where
  "toFixed1 NaN = ''NaN''"
| "toFixed1 PosInf = ''Infinity''"
| "toFixed1 NegInf = ''-Infinity''"
| "toFixed1 (Fin x) =
     (if x < 0 then ''-'' else '''') @
     show_nat (tenths \<bar>x\<bar> div 10) @ ''.'' @ show_nat (tenths \<bar>x\<bar> mod 10)"

text \<open>Truthiness of a finite number: everything but zero.\<close>

definition truthy :: "rat \<Rightarrow> bool" where
  "truthy x = (x \<noteq> 0)"

section \<open>The stored entities\<close>

type_synonym objectId = nat

text \<open>A date is its number of milliseconds since the epoch.\<close>

type_synonym date = int

text \<open>
  The fields of the Task schema that the dashboard controller reads. \<open>status\<close> and
  \<open>priority\<close> are strings (the schema's enumeration is a validator, not a type);
  \<open>createdAt\<close> and \<open>updatedAt\<close> come from the schema's \<open>timestamps\<close> option. An
  optional field is absent (\<open>None\<close>) or holds a value of its type; a field stored with
  the value null is not represented.
\<close>

record task =
  task_id :: objectId
  title :: string
  status :: string
  priority :: string
  project :: "objectId option"
  dueDate :: "date option"
  completedDate :: "date option"
  estimatedHours :: "rat option"
  actualHours :: "rat option"
  createdAt :: date
  updatedAt :: date

section \<open>The grouping stage\<close>

text \<open>
  \<open>$group\<close>: one group per distinct key, holding the documents with that key in input
  order. The database leaves the order of the groups open; here a group stands where its
  key first appears.
\<close>

fun group_by :: "('a \<Rightarrow> 'k) \<Rightarrow> 'a list \<Rightarrow> ('k \<times> 'a list) list" where
  "group_by f [] = []"
| "group_by f (x # xs) =
     (f x, x # filter (\<lambda>y. f y = f x) xs) # group_by f (filter (\<lambda>y. f y \<noteq> f x) xs)"

text \<open>\<open>$sum\<close> over an optional numeric field: a document without the field adds nothing.\<close>

definition sum_field :: "('a \<Rightarrow> rat option) \<Rightarrow> 'a list \<Rightarrow> rat" where
  "sum_field f xs = sum_list (map (\<lambda>x. case f x of None \<Rightarrow> 0 | Some v \<Rightarrow> v) xs)"

text \<open>\<open>$avg\<close> over the numeric values of a group: null (\<open>None\<close>) when there is none.\<close>

definition avg :: "rat list \<Rightarrow> rat option" where
  "avg vs = (if vs = [] then None else Some (sum_list vs / of_nat (length vs)))"

section \<open>Task statistics per status\<close>

record statBucket =
  sb_id :: string
  sb_count :: nat
  totalEstimated :: rat
  totalActual :: rat
  avgVariance :: "rat option"

text \<open>
  The \<open>$cond\<close> under \<open>avgVariance\<close>: the difference when both hour fields are present and
  non-zero, 0 otherwise.
\<close>

definition variance_or_zero :: "task \<Rightarrow> rat" where
  "variance_or_zero t =
     (case (estimatedHours t, actualHours t) of
        (Some e, Some a) \<Rightarrow> (if truthy e \<and> truthy a then a - e else 0)
      | _ \<Rightarrow> 0)"

definition taskStats :: "task list \<Rightarrow> statBucket list" where
  "taskStats tasks =
     map (\<lambda>(k, ts). \<lparr> sb_id = k, sb_count = length ts,
                      totalEstimated = sum_field estimatedHours ts,
                      totalActual = sum_field actualHours ts,
                      avgVariance = avg (map variance_or_zero ts) \<rparr>)
         (group_by status tasks)"

section \<open>Performance insights\<close>

text \<open>
  \<open>taskStats.find(s => s._id === 'completed')?.count || 0\<close>: the count of the first
  bucket named completed, 0 when there is none (or when that count is 0).
\<close>

definition completedCount :: "statBucket list \<Rightarrow> rat" where
  "completedCount stats =
     (case find (\<lambda>s. sb_id s = ''completed'') stats of
        None \<Rightarrow> 0
      | Some s \<Rightarrow> (if truthy (of_nat (sb_count s)) then of_nat (sb_count s) else 0))"

text \<open>\<open>taskStats.reduce((acc, s) => acc + s.count, 0)\<close>\<close>

definition totalCount :: "statBucket list \<Rightarrow> rat" where
  "totalCount stats = foldl (\<lambda>acc s. acc + of_nat (sb_count s)) 0 stats"

text \<open>The number that \<open>completionRate\<close> formats, and the formatted field.\<close>

definition completionRateNumber :: "statBucket list \<Rightarrow> jsnum" where
  "completionRateNumber stats = js_times (js_div (completedCount stats) (totalCount stats)) 100"

definition completionRate :: "statBucket list \<Rightarrow> jsval" where
  "completionRate stats = JString (toFixed1 (completionRateNumber stats))"

text \<open>
  \<open>timeAccuracy\<close>: three searches of the bucket list. The first decides whether a
  percentage is computed at all; the numerator comes from the first bucket with a non-zero
  \<open>totalActual\<close>, the denominator from the first bucket with a non-zero
  \<open>totalEstimated\<close>. Reading a field of a search that found nothing throws.
\<close>

datatype js_error = TypeError

definition timeAccuracy :: "statBucket list \<Rightarrow> js_error + jsval" where
  "timeAccuracy stats =
     (case find (\<lambda>s. truthy (totalEstimated s) \<and> truthy (totalActual s)) stats of
        None \<Rightarrow> Inr (JNumber (Fin 0))
      | Some _ \<Rightarrow>
          (case find (\<lambda>s. truthy (totalActual s)) stats of
             None \<Rightarrow> Inl TypeError
           | Some a \<Rightarrow>
               (case find (\<lambda>s. truthy (totalEstimated s)) stats of
                  None \<Rightarrow> Inl TypeError
                | Some e \<Rightarrow>
                    Inr (JString (toFixed1
                      (js_times (js_div (totalActual a) (totalEstimated e)) 100))))))"

text \<open>
  The time accuracy as the specification words it: the actual hours summed over all
  buckets, divided by the estimated hours summed over all buckets, times 100, and 0 when
  either sum is absent.
\<close>

definition timeAccuracy_summed :: "statBucket list \<Rightarrow> jsval" where
  "timeAccuracy_summed stats =
     (let a = sum_list (map totalActual stats); e = sum_list (map totalEstimated stats)
      in if truthy a \<and> truthy e then JString (toFixed1 (js_times (js_div a e) 100))
         else JNumber (Fin 0))"

text \<open>Two tasks for the examples below: one under its estimate, one over it.\<close>

definition task_under :: task where
  "task_under = \<lparr> task_id = 1, title = ''draft'', status = ''todo'', priority = ''high'',
     project = None, dueDate = None, completedDate = None,
     estimatedHours = Some 10, actualHours = Some 5, createdAt = 0, updatedAt = 0 \<rparr>"

definition task_over :: task where
  "task_over = \<lparr> task_id = 2, title = ''ship'', status = ''completed'', priority = ''low'',
     project = None, dueDate = None, completedDate = Some 0,
     estimatedHours = Some 10, actualHours = Some 15, createdAt = 0, updatedAt = 0 \<rparr>"

section \<open>The clock\<close>

text \<open>
  \<open>new Date()\<close> reads the system clock. The clock is the sequence of the readings it
  will give and the number of reads so far; each read returns the next reading.
\<close>

record clock =
  reading :: "nat \<Rightarrow> date"
  reads :: nat

definition newDate :: "clock \<Rightarrow> date \<times> clock" where
  "newDate c = (reading c (reads c), c\<lparr>reads := Suc (reads c)\<rparr>)"

section \<open>Overdue analysis\<close>

record overdueBucket =
  ob_id :: string
  ob_count :: nat
  avgOverdueDays :: "rat option"

text \<open>
  The \<open>$match\<close> stage: a due date before the given instant (a task without due date
  does not match) and a status other than completed and cancelled.
\<close>

definition overdue_match :: "date \<Rightarrow> task \<Rightarrow> bool" where
  "overdue_match now t =
     ((case dueDate t of None \<Rightarrow> False | Some d \<Rightarrow> d < now) \<and>
      status t \<notin> set [''completed'', ''cancelled''])"

text \<open>The age of a task at the given instant, in days: milliseconds over \<open>1000 * 60 * 60 * 24\<close>.\<close>

definition overdue_days :: "date \<Rightarrow> task \<Rightarrow> rat option" where
  "overdue_days now t =
     (case dueDate t of None \<Rightarrow> None
      | Some d \<Rightarrow> Some (of_int (now - d) / (1000 * 60 * 60 * 24)))"

text \<open>The pipeline for a given instant of the filter and a given instant of the age.\<close>

definition overdue_pipeline :: "date \<Rightarrow> date \<Rightarrow> task list \<Rightarrow> overdueBucket list" where
  "overdue_pipeline matchNow ageNow tasks =
     map (\<lambda>(k, ts). \<lparr> ob_id = k, ob_count = length ts,
                      avgOverdueDays = avg (List.map_filter (overdue_days ageNow) ts) \<rparr>)
         (group_by priority (filter (overdue_match matchNow) tasks))"

text \<open>
  The pipeline literal holds two \<open>new Date()\<close> expressions, evaluated in order when the
  literal is built: the first in \<open>$match\<close>, the second in \<open>$group\<close>.
\<close>

definition overdueAnalysis :: "clock \<Rightarrow> task list \<Rightarrow> overdueBucket list \<times> clock" where
  "overdueAnalysis c tasks =
     (let (matchNow, c1) = newDate c;
          (ageNow, c2) = newDate c1
      in (overdue_pipeline matchNow ageNow tasks, c2))"

text \<open>
  The overdue analysis as the specification words it: one reading, taken at the start, used
  by the filter and by the age.
\<close>

definition overdueAnalysis_captured_once ::
    "clock \<Rightarrow> task list \<Rightarrow> overdueBucket list \<times> clock" where
  "overdueAnalysis_captured_once c tasks =
     (let (now, c1) = newDate c in (overdue_pipeline now now tasks, c1))"

text \<open>A clock that advances by ten milliseconds per read, and two tasks around it.\<close>

definition ticking :: clock where
  "ticking = \<lparr> reading = (\<lambda>n. 10 * int n), reads = 0 \<rparr>"

definition frozen :: clock where
  "frozen = \<lparr> reading = (\<lambda>n. 0), reads = 0 \<rparr>"

definition task_due_yesterday :: task where
  "task_due_yesterday = \<lparr> task_id = 3, title = ''late'', status = ''todo'', priority = ''high'',
     project = None, dueDate = Some (- 86400000), completedDate = None,
     estimatedHours = None, actualHours = None, createdAt = - 90000000, updatedAt = - 90000000 \<rparr>"

definition task_due_soon :: task where
  "task_due_soon = \<lparr> task_id = 4, title = ''soon'', status = ''todo'', priority = ''high'',
     project = None, dueDate = Some 5, completedDate = None,
     estimatedHours = None, actualHours = None, createdAt = - 90000000, updatedAt = - 90000000 \<rparr>"

section \<open>Projects and the project progress\<close>

text \<open>The fields of the Project schema that the progress and activity pipelines read.\<close>

record project =
  proj_id :: objectId
  proj_name :: string
  proj_status :: string
  proj_priority :: string
  proj_dueDate :: "date option"

record progressRow =
  pr_id :: objectId
  pr_name :: string
  pr_status :: string
  pr_priority :: string
  pr_dueDate :: "date option"
  totalTasks :: nat
  completedTasks :: nat
  progressPercentage :: rat

text \<open>\<open>$lookup\<close> from a project into the tasks: the tasks whose \<open>project\<close> is its \<open>_id\<close>.\<close>

definition lookup_tasks :: "task list \<Rightarrow> objectId \<Rightarrow> task list" where
  "lookup_tasks tasks pid = filter (\<lambda>t. project t = Some pid) tasks"

definition completed_of :: "task list \<Rightarrow> task list" where
  "completed_of ts = filter (\<lambda>t. status t = ''completed'') ts"

text \<open>
  The \<open>$project\<close> stage. The percentage is a \<open>$cond\<close>: the quotient times 100 when the
  joined list is not empty, the constant 0 otherwise; the division is only evaluated in the
  first branch.
\<close>

definition progress_row :: "task list \<Rightarrow> project \<Rightarrow> progressRow" where
  "progress_row tasks p =
     (let ts = lookup_tasks tasks (proj_id p) in
      \<lparr> pr_id = proj_id p, pr_name = proj_name p, pr_status = proj_status p,
        pr_priority = proj_priority p, pr_dueDate = proj_dueDate p,
        totalTasks = length ts,
        completedTasks = length (completed_of ts),
        progressPercentage =
          (if length ts > 0
           then of_nat (length (completed_of ts)) / of_nat (length ts) * 100
           else 0) \<rparr>)"

text \<open>
  \<open>$sort: { dueDate: 1 }\<close>: ascending, a project without due date before every date
  (\<open>None\<close> is the least element of the order on optional values).
\<close>

definition projectProgress :: "project list \<Rightarrow> task list \<Rightarrow> progressRow list" where
  "projectProgress projects tasks = sort_key pr_dueDate (map (progress_row tasks) projects)"

section \<open>Priority distribution\<close>

record priorityBucket =
  pb_id :: string
  statusBreakdown :: "(string \<times> nat) list"
  total :: nat

text \<open>First \<open>$group\<close>: one cell per pair of priority and status, with its count.\<close>

definition priority_status_cells :: "task list \<Rightarrow> ((string \<times> string) \<times> nat) list" where
  "priority_status_cells tasks =
     map (\<lambda>(k, ts). (k, length ts)) (group_by (\<lambda>t. (priority t, status t)) tasks)"

text \<open>
  Second \<open>$group\<close>: the cells regrouped by priority; \<open>$push\<close> collects status and count
  of each cell, \<open>$sum\<close> adds the counts.
\<close>

definition priorityDistribution :: "task list \<Rightarrow> priorityBucket list" where
  "priorityDistribution tasks =
     map (\<lambda>(p, cells). \<lparr> pb_id = p,
                         statusBreakdown = map (\<lambda>c. (snd (fst c), snd c)) cells,
                         total = sum_list (map snd cells) \<rparr>)
         (group_by (\<lambda>c. fst (fst c)) (priority_status_cells tasks))"

section \<open>Recent activity\<close>

record activityEntry =
  ae_id :: objectId
  ae_title :: string
  ae_status :: string
  ae_priority :: string
  ae_updatedAt :: date
  projectName :: "string option"

text \<open>
  \<open>$lookup\<close> from a task into the projects: the projects whose \<open>_id\<close> is the task's
  \<open>project\<close>; none for a task without one.
\<close>

definition lookup_projects :: "project list \<Rightarrow> objectId option \<Rightarrow> project list" where
  "lookup_projects projects r =
     (case r of None \<Rightarrow> [] | Some pid \<Rightarrow> filter (\<lambda>p. proj_id p = pid) projects)"

text \<open>\<open>$arrayElemAt\<close> at index 0: no value, and so no field, for the empty array.\<close>

definition arrayElemAt0 :: "'a list \<Rightarrow> 'a option" where
  "arrayElemAt0 xs = (case xs of [] \<Rightarrow> None | x # _ \<Rightarrow> Some x)"

definition activity_entry :: "project list \<Rightarrow> task \<Rightarrow> activityEntry" where
  "activity_entry projects t =
     \<lparr> ae_id = task_id t, ae_title = title t, ae_status = status t,
       ae_priority = priority t, ae_updatedAt = updatedAt t,
       projectName = arrayElemAt0 (map proj_name (lookup_projects projects (project t))) \<rparr>"

text \<open>
  The pipeline: \<open>$match\<close> on the start of the window, \<open>$sort\<close> by \<open>updatedAt\<close>
  descending, \<open>$limit\<close> 20, then the join and the projection.
\<close>

definition recentActivity :: "date \<Rightarrow> project list \<Rightarrow> task list \<Rightarrow> activityEntry list" where
  "recentActivity startDate projects tasks =
     map (activity_entry projects)
       (take 20 (sort_key (\<lambda>t. - updatedAt t) (filter (\<lambda>t. startDate \<le> updatedAt t) tasks)))"

text \<open>Projects and tasks for the examples below.\<close>

definition project_site :: project where
  "project_site = \<lparr> proj_id = 7, proj_name = ''site'', proj_status = ''in-progress'',
     proj_priority = ''high'', proj_dueDate = Some 500 \<rparr>"

definition project_idle :: project where
  "project_idle = \<lparr> proj_id = 8, proj_name = ''idle'', proj_status = ''planning'',
     proj_priority = ''low'', proj_dueDate = None \<rparr>"

definition task_site_done :: task where
  "task_site_done = \<lparr> task_id = 5, title = ''layout'', status = ''completed'', priority = ''high'',
     project = Some 7, dueDate = None, completedDate = Some 90,
     estimatedHours = None, actualHours = None, createdAt = 10, updatedAt = 90 \<rparr>"

definition task_site_open :: task where
  "task_site_open = \<lparr> task_id = 6, title = ''copy'', status = ''todo'', priority = ''high'',
     project = Some 7, dueDate = None, completedDate = None,
     estimatedHours = None, actualHours = None, createdAt = 20, updatedAt = 120 \<rparr>"

definition task_dangling :: task where
  "task_dangling = \<lparr> task_id = 9, title = ''orphan'', status = ''review'', priority = ''medium'',
     project = Some 99, dueDate = None, completedDate = None,
     estimatedHours = None, actualHours = None, createdAt = 30, updatedAt = 100 \<rparr>"

section \<open>Bulk mutation\<close>

text \<open>
  The request body. Each of \<open>taskIds\<close>, \<open>updates\<close> and \<open>operation\<close> may be missing;
  \<open>taskIds = None\<close> also stands for a value that is not an array.
\<close>

record update_fields =
  u_status :: "string option"
  u_priority :: "string option"
  u_project :: "objectId option"

record body =
  taskIds :: "objectId list option"
  updates :: "update_fields option"
  operation :: "string option"

text \<open>Truthiness of a string: the empty string is falsy. An identifier is always truthy.\<close>

definition truthy_string :: "string \<Rightarrow> bool" where
  "truthy_string s = (s \<noteq> [])"

definition truthy_id :: "objectId \<Rightarrow> bool" where
  "truthy_id i = True"

text \<open>
  What the store's batch calls return: \<open>updateMany\<close> reports \<open>matchedCount\<close> and
  \<open>modifiedCount\<close> and has no \<open>deletedCount\<close>; \<open>deleteMany\<close> reports \<open>deletedCount\<close>
  only.
\<close>

datatype writeResult = UpdateResult nat nat | DeleteResult nat

fun modifiedCount :: "writeResult \<Rightarrow> nat option" where
  "modifiedCount (UpdateResult matched modified) = Some modified"
| "modifiedCount (DeleteResult n) = None"

fun deletedCount :: "writeResult \<Rightarrow> nat option" where
  "deletedCount (UpdateResult matched modified) = None"
| "deletedCount (DeleteResult n) = Some n"

text \<open>
  \<open>updateMany({ _id: { $in: ids } }, update)\<close>: every stored task whose identifier is among
  \<open>ids\<close> is updated; a matched task counts as modified when the update changes it.
\<close>

definition updateMany ::
    "objectId list \<Rightarrow> (task \<Rightarrow> task) \<Rightarrow> task list \<Rightarrow> writeResult \<times> task list" where
  "updateMany ids upd store =
     (let matched = filter (\<lambda>t. task_id t \<in> set ids) store
      in (UpdateResult (length matched) (length (filter (\<lambda>t. upd t \<noteq> t) matched)),
          map (\<lambda>t. if task_id t \<in> set ids then upd t else t) store))"

definition deleteMany :: "objectId list \<Rightarrow> task list \<Rightarrow> writeResult \<times> task list" where
  "deleteMany ids store =
     (DeleteResult (length (filter (\<lambda>t. task_id t \<in> set ids) store)),
      filter (\<lambda>t. task_id t \<notin> set ids) store)"

text \<open>
  \<open>a || b\<close> on two counters that are numbers or undefined: \<open>a\<close> when it is a non-zero
  number, \<open>b\<close> otherwise.
\<close>

definition js_or :: "nat option \<Rightarrow> nat option \<Rightarrow> nat option" where
  "js_or a b = (case a of None \<Rightarrow> b | Some n \<Rightarrow> (if n \<noteq> 0 then Some n else b))"

text \<open>The text of a response's \<open>message\<close>: a literal, or the message of a caught error.\<close>

datatype mongo_error = DivideByZero

datatype caught = Thrown js_error | Rejected mongo_error

datatype message = Text string | ErrorMessage caught

record bulkData =
  bd_operation :: string
  affectedCount :: "nat option"
  bd_taskIds :: "objectId list"

record response =
  res_status :: nat
  res_success :: bool
  res_error :: "string option"
  res_message :: "message option"
  res_data :: "bulkData option"

definition bad_request :: "string \<Rightarrow> message option \<Rightarrow> response" where
  "bad_request err msg =
     \<lparr> res_status = 400, res_success = False, res_error = Some err, res_message = msg,
       res_data = None \<rparr>"

definition bulk_ok :: "string \<Rightarrow> writeResult \<Rightarrow> objectId list \<Rightarrow> response" where
  "bulk_ok opn result ids =
     \<lparr> res_status = 200, res_success = True, res_error = None,
       res_message = Some (Text (''Bulk '' @ opn @ '' completed successfully'')),
       res_data = Some \<lparr> bd_operation = opn,
                         affectedCount = js_or (modifiedCount result) (deletedCount result),
                         bd_taskIds = ids \<rparr> \<rparr>"

text \<open>
  One update branch of the \<open>switch\<close>: reading a field of an absent \<open>updates\<close> throws; a
  missing or falsy field answers 400; otherwise the handler reads the clock for the
  \<open>updatedAt\<close> of its update object and the batch update runs. The schema has the
  \<open>timestamps\<close> option, under which the batch update replaces that \<open>updatedAt\<close> with a
  clock reading of its own: the stored value is the second reading.
\<close>

definition update_branch ::
    "string \<Rightarrow> string \<Rightarrow> update_fields option \<Rightarrow> (update_fields \<Rightarrow> 'v option) \<Rightarrow>
     ('v \<Rightarrow> bool) \<Rightarrow> ('v \<Rightarrow> date \<Rightarrow> task \<Rightarrow> task) \<Rightarrow> objectId list \<Rightarrow> clock \<Rightarrow>
     task list \<Rightarrow> js_error + (response \<times> clock \<times> task list)" where
  "update_branch opn err upds field truthy_value upd ids c store =
     (case upds of
        None \<Rightarrow> Inl TypeError
      | Some u \<Rightarrow>
          (case field u of
             None \<Rightarrow> Inr (bad_request err None, c, store)
           | Some v \<Rightarrow>
               (if \<not> truthy_value v then Inr (bad_request err None, c, store)
                else (let (now, c1) = newDate c;
                          (stamp, c2) = newDate c1;
                          (result, store1) = updateMany ids (upd v stamp) store
                      in Inr (bulk_ok opn result ids, c2, store1)))))"

definition set_status :: "string \<Rightarrow> date \<Rightarrow> task \<Rightarrow> task" where
  "set_status v now t = t\<lparr>status := v, updatedAt := now\<rparr>"

definition set_priority :: "string \<Rightarrow> date \<Rightarrow> task \<Rightarrow> task" where
  "set_priority v now t = t\<lparr>priority := v, updatedAt := now\<rparr>"

definition set_project :: "objectId \<Rightarrow> date \<Rightarrow> task \<Rightarrow> task" where
  "set_project v now t = t\<lparr>project := Some v, updatedAt := now\<rparr>"

text \<open>The body of the \<open>try\<close> block.\<close>

definition bulk_try :: "body \<Rightarrow> clock \<Rightarrow> task list \<Rightarrow> js_error + (response \<times> clock \<times> task list)" where
  "bulk_try b c store =
     (case taskIds b of
        None \<Rightarrow>
          Inr (bad_request ''Validation failed'' (Some (Text ''taskIds array is required'')), c, store)
      | Some ids \<Rightarrow>
          (if ids = [] then
             Inr (bad_request ''Validation failed'' (Some (Text ''taskIds array is required'')),
                  c, store)
           else if operation b = Some ''update-status'' then
             update_branch ''update-status'' ''Status is required for status update''
               (updates b) u_status truthy_string set_status ids c store
           else if operation b = Some ''update-priority'' then
             update_branch ''update-priority'' ''Priority is required for priority update''
               (updates b) u_priority truthy_string set_priority ids c store
           else if operation b = Some ''assign-project'' then
             update_branch ''assign-project'' ''Project is required for project assignment''
               (updates b) u_project truthy_id set_project ids c store
           else if operation b = Some ''delete'' then
             (let (result, store1) = deleteMany ids store
              in Inr (bulk_ok ''delete'' result ids, c, store1))
           else
             Inr (bad_request ''Invalid operation''
                    (Some (Text ''Supported operations: update-status, update-priority, assign-project, delete'')),
                  c, store)))"

text \<open>The handler: what is thrown inside the \<open>try\<close> block becomes a 500 response.\<close>

definition server_error :: "string \<Rightarrow> caught \<Rightarrow> response" where
  "server_error err e =
     \<lparr> res_status = 500, res_success = False, res_error = Some err,
       res_message = Some (ErrorMessage e), res_data = None \<rparr>"

definition bulkUpdateTasks :: "body \<Rightarrow> clock \<Rightarrow> task list \<Rightarrow> response \<times> clock \<times> task list" where
  "bulkUpdateTasks b c store =
     (case bulk_try b c store of
        Inr r \<Rightarrow> r
      | Inl e \<Rightarrow> (server_error ''Failed to perform bulk update'' (Thrown e), c, store))"

text \<open>Request bodies for the examples below.\<close>

definition status_update :: update_fields where
  "status_update = \<lparr> u_status = Some ''completed'', u_priority = None, u_project = None \<rparr>"

definition priority_update :: update_fields where
  "priority_update = \<lparr> u_status = None, u_priority = Some ''urgent'', u_project = None \<rparr>"

definition project_update :: update_fields where
  "project_update = \<lparr> u_status = None, u_priority = None, u_project = Some 7 \<rparr>"

definition request :: "string \<Rightarrow> update_fields option \<Rightarrow> objectId list \<Rightarrow> body" where
  "request opn u ids = \<lparr> taskIds = Some ids, updates = u, operation = Some opn \<rparr>"

section \<open>Reports\<close>

subsection \<open>Rendering as delimited text\<close>

text \<open>
  A record of a report is an object: its own properties in key order. A property value is a
  string, a number, an identifier, null or undefined.
\<close>

datatype field = FString string | FNumber rat | FObjectId objectId | FNull | FUndefined

type_synonym object = "(string \<times> field) list"

text \<open>\<open>Array.prototype.join\<close> on strings.\<close>

fun join :: "string \<Rightarrow> string list \<Rightarrow> string" where
  "join sep [] = []"
| "join sep [x] = x"
| "join sep (x # y # zs) = x @ sep @ join sep (y # zs)"

text \<open>
  \<open>item[header]\<close>: undefined for a key the object does not have. Only the object's own
  properties are looked up; the records of a report are plain data objects.
\<close>

definition get_field :: "object \<Rightarrow> string \<Rightarrow> field" where
  "get_field item k = (case map_of item k of None \<Rightarrow> FUndefined | Some v \<Rightarrow> v)"

text \<open>
  One cell of a row: a string between two double quotes, as it is; any other value is left
  to \<open>join\<close>, which writes nothing for null and undefined and the host language's string
  conversion \<open>str\<close> for the rest.
\<close>

definition csv_cell :: "(field \<Rightarrow> string) \<Rightarrow> field \<Rightarrow> string" where
  "csv_cell str v =
     (case v of
        FString s \<Rightarrow> [CHR 0x22] @ s @ [CHR 0x22]
      | FNull \<Rightarrow> []
      | FUndefined \<Rightarrow> []
      | _ \<Rightarrow> str v)"

definition csv_row :: "(field \<Rightarrow> string) \<Rightarrow> string list \<Rightarrow> object \<Rightarrow> string" where
  "csv_row str headers item = join '','' (map (\<lambda>header. csv_cell str (get_field item header)) headers)"

text \<open>
  The separator of the last \<open>join\<close> is written \<open>'\\n'\<close> in the source: a backslash
  followed by the letter n.
\<close>

definition convertToCSV :: "(field \<Rightarrow> string) \<Rightarrow> object list \<Rightarrow> string" where
  "convertToCSV str data =
     (case data of
        [] \<Rightarrow> []
      | first # _ \<Rightarrow>
          (let headers = map fst first;
               csvHeaders = join '','' headers;
               csvRows = map (csv_row str headers) data
           in join [CHR 0x5C, CHR ''n''] (csvHeaders # csvRows)))"

subsection \<open>The time-tracking report\<close>

text \<open>\<open>$divide\<close>: the database rejects a zero divisor, and the whole aggregation with it.\<close>

definition mongo_divide :: "rat \<Rightarrow> rat \<Rightarrow> mongo_error + rat" where
  "mongo_divide a b = (if b = 0 then Inl DivideByZero else Inr (a / b))"

record dateFilter =
  df_gte :: "date option"
  df_lte :: "date option"

text \<open>
  The condition on \<open>completedDate\<close>, present in \<open>$match\<close> only when the filter object has a
  key. A task without completion date does not satisfy a bound.
\<close>

definition date_ok :: "dateFilter \<Rightarrow> task \<Rightarrow> bool" where
  "date_ok f t =
     (if df_gte f = None \<and> df_lte f = None then True
      else (case completedDate t of
              None \<Rightarrow> False
            | Some d \<Rightarrow>
                (case df_gte f of None \<Rightarrow> True | Some g \<Rightarrow> g \<le> d) \<and>
                (case df_lte f of None \<Rightarrow> True | Some l \<Rightarrow> d \<le> l)))"

text \<open>\<open>$match\<close>: both hour fields exist; the stage hands each task on with its two values.\<close>

definition time_tracking_match :: "dateFilter \<Rightarrow> task list \<Rightarrow> (task \<times> rat \<times> rat) list" where
  "time_tracking_match f tasks =
     List.map_filter
       (\<lambda>t. case (estimatedHours t, actualHours t) of
               (Some e, Some a) \<Rightarrow> (if date_ok f t then Some (t, e, a) else None)
             | _ \<Rightarrow> None)
       tasks"

record timeRow =
  tr_id :: objectId
  tr_title :: string
  tr_estimatedHours :: rat
  tr_actualHours :: rat
  variance :: rat
  variancePercent :: rat

text \<open>\<open>$project\<close> on one document.\<close>

definition time_tracking_project :: "task \<times> rat \<times> rat \<Rightarrow> mongo_error + timeRow" where
  "time_tracking_project x =
     (case x of (t, e, a) \<Rightarrow>
        (case mongo_divide (a - e) e of
           Inl err \<Rightarrow> Inl err
         | Inr q \<Rightarrow>
             Inr \<lparr> tr_id = task_id t, tr_title = title t, tr_estimatedHours = e,
                   tr_actualHours = a, variance = a - e, variancePercent = q * 100 \<rparr>))"

text \<open>A stage over all documents: the first error ends the aggregation.\<close>

fun stage :: "('a \<Rightarrow> 'e + 'b) \<Rightarrow> 'a list \<Rightarrow> 'e + 'b list" where
  "stage f [] = Inr []"
| "stage f (x # xs) =
     (case f x of
        Inl err \<Rightarrow> Inl err
      | Inr y \<Rightarrow> (case stage f xs of Inl err \<Rightarrow> Inl err | Inr ys \<Rightarrow> Inr (y # ys)))"

definition time_tracking :: "dateFilter \<Rightarrow> task list \<Rightarrow> mongo_error + timeRow list" where
  "time_tracking f tasks = stage time_tracking_project (time_tracking_match f tasks)"

definition row_object :: "timeRow \<Rightarrow> object" where
  "row_object r =
     [(''_id'', FObjectId (tr_id r)), (''title'', FString (tr_title r)),
      (''estimatedHours'', FNumber (tr_estimatedHours r)),
      (''actualHours'', FNumber (tr_actualHours r)),
      (''variance'', FNumber (variance r)), (''variancePercent'', FNumber (variancePercent r))]"

datatype reportResponse =
    JsonReport string "timeRow list" date nat
  | CsvReport string string
  | ReportFailure nat string message

text \<open>
  The report handler for the type \<open>time-tracking\<close>: a rejected aggregation is caught and
  answered with status 500; the text format sends the rendering under the attachment name;
  the default format answers 200 with the report type, the rows, the time of generation
  and the number of rows.
\<close>

definition generateReport_time_tracking ::
    "(field \<Rightarrow> string) \<Rightarrow> string \<Rightarrow> dateFilter \<Rightarrow> clock \<Rightarrow> task list \<Rightarrow> reportResponse \<times> clock" where
  "generateReport_time_tracking str format f c tasks =
     (case time_tracking f tasks of
        Inl err \<Rightarrow> (ReportFailure 500 ''Failed to generate report'' (ErrorMessage (Rejected err)), c)
      | Inr reportData \<Rightarrow>
          (if format = ''csv''
           then (CsvReport ''time-tracking-report.csv''
                   (convertToCSV str (map row_object reportData)), c)
           else (let (now, c1) = newDate c
                 in (JsonReport ''time-tracking'' reportData now (length reportData), c1))))"

text \<open>
  The time-tracking rows as the specification asks for them: a task with a zero estimate
  is left out, the others are reported.
\<close>

definition time_tracking_excluding_zero :: "dateFilter \<Rightarrow> task list \<Rightarrow> mongo_error + timeRow list" where
  "time_tracking_excluding_zero f tasks =
     stage time_tracking_project (filter (\<lambda>x. fst (snd x) \<noteq> 0) (time_tracking_match f tasks))"

text \<open>Examples: no date filter, a task with a zero estimate, and a record with awkward text.\<close>

definition no_filter :: dateFilter where
  "no_filter = \<lparr> df_gte = None, df_lte = None \<rparr>"

definition task_zero_estimate :: task where
  "task_zero_estimate = \<lparr> task_id = 10, title = ''spike'', status = ''review'', priority = ''low'',
     project = None, dueDate = None, completedDate = None,
     estimatedHours = Some 0, actualHours = Some 5, createdAt = 0, updatedAt = 0 \<rparr>"

definition quoted_title :: string where
  "quoted_title = ''say '' @ [CHR 0x22] @ ''hi'' @ [CHR 0x22] @ '', then go''"

definition first_record :: object where
  "first_record = [(''title'', FString quoted_title), (''hours'', FNull)]"

definition second_record :: object where
  "second_record = [(''hours'', FUndefined), (''title'', FString ''plain''), (''extra'', FString ''x'')]"

definition multiline_record :: object where
  "multiline_record = [(''title'', FString (''a'' @ [CHR 0x0A] @ ''b''))]"

definition no_numbers :: "field \<Rightarrow> string" where
  "no_numbers v = []"

section \<open>Properties of the grouping stage\<close>

lemma group_by_keys: "set (map fst (group_by f xs)) = f ` set xs"
proof (induction f xs rule: group_by.induct)
  case (1 f)
  show ?case by simp
next
  case (2 f x xs)
  then show ?case by auto
qed

lemma group_by_distinct: "distinct (map fst (group_by f xs))"
proof (induction f xs rule: group_by.induct)
  case (1 f)
  show ?case by simp
next
  case (2 f x xs)
  have "set (map fst (group_by f (filter (\<lambda>y. f y \<noteq> f x) xs)))
        = f ` set (filter (\<lambda>y. f y \<noteq> f x) xs)"
    by (rule group_by_keys)
  then have "f x \<notin> set (map fst (group_by f (filter (\<lambda>y. f y \<noteq> f x) xs)))"
    by auto
  with "2.IH" show ?case by simp
qed

lemma group_by_members:
  "(k, g) \<in> set (group_by f xs) \<Longrightarrow> g = filter (\<lambda>y. f y = k) xs \<and> g \<noteq> []"
proof (induction f xs arbitrary: k g rule: group_by.induct)
  case (1 f)
  then show ?case by simp
next
  case (2 f x xs)
  from "2.prems" consider
    (head) "k = f x" "g = x # filter (\<lambda>y. f y = f x) xs"
    | (tail) "(k, g) \<in> set (group_by f (filter (\<lambda>y. f y \<noteq> f x) xs))"
    by auto
  then show ?case
  proof cases
    case head
    then show ?thesis by simp
  next
    case tail
    have ih: "g = filter (\<lambda>y. f y = k) (filter (\<lambda>y. f y \<noteq> f x) xs) \<and> g \<noteq> []"
      by (rule "2.IH" [OF tail])
    from tail have "k \<in> set (map fst (group_by f (filter (\<lambda>y. f y \<noteq> f x) xs)))"
      by force
    then have "k \<in> f ` set (filter (\<lambda>y. f y \<noteq> f x) xs)"
      by (simp only: group_by_keys)
    then have neq: "k \<noteq> f x"
      by auto
    have e: "filter (\<lambda>y. f y = k) (filter (\<lambda>y. f y \<noteq> f x) xs) = filter (\<lambda>y. f y = k) xs"
      using neq by (induction xs) auto
    have c: "filter (\<lambda>y. f y = k) (x # xs) = filter (\<lambda>y. f y = k) xs"
      using neq by auto
    from ih show ?thesis
      unfolding e c .
  qed
qed

section \<open>The completion rate\<close>

lemma totalCount_sum: "totalCount stats = of_nat (sum_list (map sb_count stats))"
proof -
  have "foldl (\<lambda>acc s. acc + of_nat (sb_count s)) a stats
        = a + (of_nat (sum_list (map sb_count stats)) :: rat)" for a
    by (induction stats arbitrary: a) simp_all
  then show ?thesis
    by (simp add: totalCount_def)
qed

lemma taskStats_counts_positive:
  assumes "s \<in> set (taskStats tasks)"
  shows "0 < sb_count s"
proof -
  from assms obtain k ts where kts: "(k, ts) \<in> set (group_by status tasks)"
    and s: "sb_count s = length ts"
    by (auto simp: taskStats_def)
  from group_by_members [OF kts] have "ts \<noteq> []" by blast
  with s show ?thesis by simp
qed

lemma completedCount_le_totalCount: "completedCount stats \<le> totalCount stats"
proof (cases "find (\<lambda>s. sb_id s = ''completed'') stats")
  case None
  then show ?thesis
    by (simp add: completedCount_def totalCount_sum)
next
  case (Some s)
  then have "s \<in> set stats"
    by (auto simp: find_Some_iff)
  then have "sb_count s \<le> sum_list (map sb_count stats)"
    by (simp add: member_le_sum_list)
  then have "(of_nat (sb_count s) :: rat) \<le> of_nat (sum_list (map sb_count stats))"
    by (simp only: of_nat_le_iff)
  with Some show ?thesis
    by (simp add: completedCount_def totalCount_sum truthy_def)
qed

lemma completedCount_nonneg: "0 \<le> completedCount stats"
  by (simp add: completedCount_def split: option.splits)

lemma totalCount_positive:
  assumes "tasks \<noteq> []"
  shows "0 < totalCount (taskStats tasks)"
proof -
  from assms obtain t ts where "tasks = t # ts"
    by (cases tasks) auto
  then obtain s ss where st: "taskStats tasks = s # ss"
    by (simp add: taskStats_def)
  then have "s \<in> set (taskStats tasks)" by simp
  then have "0 < sb_count s" by (rule taskStats_counts_positive)
  with st show ?thesis
    by (simp add: totalCount_sum)
qed

lemma completionRateNumber_in_range:
  assumes "tasks \<noteq> []"
  shows "\<exists>r. completionRateNumber (taskStats tasks) = Fin r \<and> 0 \<le> r \<and> r \<le> 100"
proof -
  define n where "n = completedCount (taskStats tasks)"
  define d where "d = totalCount (taskStats tasks)"
  have d: "0 < d" unfolding d_def using assms by (rule totalCount_positive)
  have n: "0 \<le> n" "n \<le> d"
    unfolding n_def d_def by (rule completedCount_nonneg, rule completedCount_le_totalCount)
  from d n have q: "0 \<le> n / d" "n / d \<le> 1"
    by (simp_all add: divide_le_eq)
  from d have "completionRateNumber (taskStats tasks) = Fin (n / d * 100)"
    by (simp add: completionRateNumber_def js_div_def n_def d_def)
  moreover have "0 \<le> n / d * 100" "n / d * 100 \<le> 100"
  proof -
    define q where "q = n / d"
    from q have "0 \<le> q" "q \<le> 1" by (simp_all add: q_def)
    then have "0 \<le> q * 100" "q * 100 \<le> 100" by simp_all
    then show "0 \<le> n / d * 100" "n / d * 100 \<le> 100" by (simp_all only: q_def)
  qed
  ultimately show ?thesis by blast
qed

lemma completionRate_scenario:
  "completionRate
     [\<lparr> sb_id = ''todo'', sb_count = 1, totalEstimated = 0, totalActual = 0, avgVariance = Some 0 \<rparr>,
      \<lparr> sb_id = ''completed'', sb_count = 2, totalEstimated = 0, totalActual = 0,
        avgVariance = Some 0 \<rparr>]
   = JString ''66.7''"
  by code_simp

text \<open>
  C1. With no Task at all there is no status bucket, the denominator of the completion rate
  is 0, and the field is the string NaN: the quotient 0 / 0 is formatted as it is, where
  the claim asks for 0.
\<close>

theorem completionRate_empty_collection:
  "taskStats [] = [] \<and> totalCount (taskStats []) = 0 \<and>
   completionRateNumber (taskStats []) = NaN \<and>
   completionRate (taskStats []) = JString ''NaN''"
  by (simp add: taskStats_def totalCount_def completedCount_def completionRateNumber_def
      completionRate_def js_div_def)

section \<open>The time accuracy\<close>

lemma timeAccuracy_never_throws: "\<exists>v. timeAccuracy stats = Inr v"
proof (cases "find (\<lambda>s. truthy (totalEstimated s) \<and> truthy (totalActual s)) stats")
  case None
  then show ?thesis by (simp add: timeAccuracy_def)
next
  case (Some b)
  then have "b \<in> set stats" "truthy (totalEstimated b)" "truthy (totalActual b)"
    by (auto simp: find_Some_iff)
  then have "find (\<lambda>s. truthy (totalActual s)) stats \<noteq> None"
    and "find (\<lambda>s. truthy (totalEstimated s)) stats \<noteq> None"
    by (auto simp: find_None_iff)
  with Some show ?thesis
    by (auto simp: timeAccuracy_def)
qed

text \<open>
  C2. The time accuracy is not the quotient of the sums over all buckets. For one task of
  10 estimated and 5 actual hours in status todo and one of 10 estimated and 15 actual
  hours in status completed, the sums give 20 / 20, that is 100.0; the code divides the
  fields of the first bucket that has them and answers 50.0, or 150.0 when the buckets
  come in the other order.
\<close>

theorem timeAccuracy_first_bucket_only:
  "timeAccuracy (taskStats [task_under, task_over]) = Inr (JString ''50.0'') \<and>
   timeAccuracy (taskStats [task_over, task_under]) = Inr (JString ''150.0'') \<and>
   timeAccuracy_summed (taskStats [task_under, task_over]) = JString ''100.0'' \<and>
   timeAccuracy_summed (taskStats [task_over, task_under]) = JString ''100.0''"
  by code_simp

section \<open>The overdue analysis and the clock\<close>

lemma overdue_pipeline_bucket:
  assumes "b \<in> set (overdue_pipeline matchNow ageNow tasks)"
  shows "ob_count b
           = length (filter (\<lambda>t. priority t = ob_id b) (filter (overdue_match matchNow) tasks))
         \<and> avgOverdueDays b
           = avg (List.map_filter (overdue_days ageNow)
                   (filter (\<lambda>t. priority t = ob_id b) (filter (overdue_match matchNow) tasks)))"
proof -
  from assms obtain k ts
    where kts: "(k, ts) \<in> set (group_by priority (filter (overdue_match matchNow) tasks))"
      and b: "b = \<lparr> ob_id = k, ob_count = length ts,
                    avgOverdueDays = avg (List.map_filter (overdue_days ageNow) ts) \<rparr>"
    by (auto simp: overdue_pipeline_def)
  from group_by_members [OF kts]
  have "ts = filter (\<lambda>t. priority t = k) (filter (overdue_match matchNow) tasks)"
    by blast
  with b show ?thesis by simp
qed

text \<open>
  C3, as the code has it. The overdue analysis reads the clock twice. The filter compares
  the due dates with the first reading; the average age is taken from the second reading.
  Every bucket counts the tasks of its priority that were overdue at the first reading and
  averages their ages at the second. The result is that of a single capture whenever the
  two readings are equal.
\<close>

theorem overdueAnalysis_reads_clock_twice:
  "overdueAnalysis c tasks
     = (overdue_pipeline (reading c (reads c)) (reading c (Suc (reads c))) tasks,
        c\<lparr>reads := reads c + 2\<rparr>) \<and>
   (reading c (Suc (reads c)) = reading c (reads c) \<longrightarrow>
      fst (overdueAnalysis c tasks) = fst (overdueAnalysis_captured_once c tasks)) \<and>
   (\<forall>b \<in> set (fst (overdueAnalysis c tasks)).
      ob_count b
        = length (filter (\<lambda>t. priority t = ob_id b)
                    (filter (overdue_match (reading c (reads c))) tasks)) \<and>
      avgOverdueDays b
        = avg (List.map_filter (overdue_days (reading c (Suc (reads c))))
                (filter (\<lambda>t. priority t = ob_id b)
                   (filter (overdue_match (reading c (reads c))) tasks))))"
proof -
  have run: "overdueAnalysis c tasks
     = (overdue_pipeline (reading c (reads c)) (reading c (Suc (reads c))) tasks,
        c\<lparr>reads := reads c + 2\<rparr>)"
    by (simp add: overdueAnalysis_def newDate_def)
  have once: "fst (overdueAnalysis_captured_once c tasks)
     = overdue_pipeline (reading c (reads c)) (reading c (reads c)) tasks"
    by (simp add: overdueAnalysis_captured_once_def newDate_def)
  show ?thesis
    using run once overdue_pipeline_bucket by auto
qed

theorem overdueAnalysis_reads_clock_twice_witness:
  "reading frozen (Suc (reads frozen)) = reading frozen (reads frozen) \<and>
   fst (overdueAnalysis frozen [task_due_yesterday])
     = fst (overdueAnalysis_captured_once frozen [task_due_yesterday]) \<and>
   fst (overdueAnalysis frozen [task_due_yesterday])
     = [\<lparr> ob_id = ''high'', ob_count = 1, avgOverdueDays = Some 1 \<rparr>] \<and>
   reads (snd (overdueAnalysis frozen [task_due_yesterday])) = 2"
proof -
  note t = overdueAnalysis_reads_clock_twice [of frozen "[task_due_yesterday]"]
  have h: "reading frozen (Suc (reads frozen)) = reading frozen (reads frozen)"
    by (simp add: frozen_def)
  from t h have same: "fst (overdueAnalysis frozen [task_due_yesterday])
     = fst (overdueAnalysis_captured_once frozen [task_due_yesterday])"
    by blast
  from t have run: "overdueAnalysis frozen [task_due_yesterday]
     = (overdue_pipeline (reading frozen (reads frozen)) (reading frozen (Suc (reads frozen)))
          [task_due_yesterday], frozen\<lparr>reads := reads frozen + 2\<rparr>)"
    by blast
  have v: "overdue_pipeline (reading frozen (reads frozen)) (reading frozen (Suc (reads frozen)))
             [task_due_yesterday]
           = [\<lparr> ob_id = ''high'', ob_count = 1, avgOverdueDays = Some 1 \<rparr>]"
    by code_simp
  from run v have val: "fst (overdueAnalysis frozen [task_due_yesterday])
     = [\<lparr> ob_id = ''high'', ob_count = 1, avgOverdueDays = Some 1 \<rparr>]"
    by simp
  from run have rd: "reads (snd (overdueAnalysis frozen [task_due_yesterday])) = 2"
    by (simp add: frozen_def)
  from h same val rd show ?thesis
    by blast
qed

text \<open>
  C3, as the claim states it, fails. On a clock that advances by ten milliseconds between
  the two reads, a task due one day before the first reading is given an age of more than
  one day, and a task due between the two readings is left out although it is older than
  zero at the instant of the age: the filter and the age saw different readings, and the
  result differs from that of a single capture.
\<close>

theorem overdueAnalysis_clock_skew:
  "fst (overdueAnalysis ticking [task_due_yesterday, task_due_soon])
     = [\<lparr> ob_id = ''high'', ob_count = 1, avgOverdueDays = Some (8640001 / 8640000) \<rparr>] \<and>
   fst (overdueAnalysis_captured_once ticking [task_due_yesterday, task_due_soon])
     = [\<lparr> ob_id = ''high'', ob_count = 1, avgOverdueDays = Some 1 \<rparr>] \<and>
   fst (overdueAnalysis ticking [task_due_yesterday, task_due_soon])
     \<noteq> fst (overdueAnalysis_captured_once ticking [task_due_yesterday, task_due_soon])"
  by code_simp

section \<open>The project progress\<close>

lemma progress_row_facts:
  "pr_id (progress_row tasks p) = proj_id p \<and>
   totalTasks (progress_row tasks p) = length (filter (\<lambda>t. project t = Some (proj_id p)) tasks) \<and>
   completedTasks (progress_row tasks p)
     = length (filter (\<lambda>t. status t = ''completed'')
                 (filter (\<lambda>t. project t = Some (proj_id p)) tasks))"
  by (simp add: progress_row_def lookup_tasks_def completed_of_def Let_def)

lemma progress_row_percentage:
  "(0 < totalTasks (progress_row tasks p) \<longrightarrow>
      progressPercentage (progress_row tasks p)
        = of_nat (completedTasks (progress_row tasks p))
          / of_nat (totalTasks (progress_row tasks p)) * 100) \<and>
   (totalTasks (progress_row tasks p) = 0 \<longrightarrow> progressPercentage (progress_row tasks p) = 0)"
  by (simp add: progress_row_def Let_def)

lemma progress_row_range:
  "0 \<le> progressPercentage (progress_row tasks p) \<and>
   progressPercentage (progress_row tasks p) \<le> 100"
proof -
  define ts where "ts = lookup_tasks tasks (proj_id p)"
  have le: "length (completed_of ts) \<le> length ts"
    by (simp add: completed_of_def)
  show ?thesis
  proof (cases "length ts > 0")
    case False
    then show ?thesis
      by (simp add: progress_row_def Let_def ts_def)
  next
    case True
    define q :: rat where "q = of_nat (length (completed_of ts)) / of_nat (length ts)"
    from True have pos: "(0::rat) < of_nat (length ts)" by simp
    from le have "(of_nat (length (completed_of ts)) :: rat) \<le> of_nat (length ts)"
      by (simp only: of_nat_le_iff)
    with pos have q1: "q \<le> 1"
      by (simp add: q_def divide_le_eq)
    have q0: "0 \<le> q"
      by (simp add: q_def)
    from True have "progressPercentage (progress_row tasks p) = q * 100"
      by (simp add: progress_row_def Let_def ts_def [symmetric] q_def)
    with q0 q1 show ?thesis
      by simp
  qed
qed

text \<open>
  C7. Every project has a row in the progress rollup, also a project that no task refers
  to; the row counts the tasks that refer to the project and the completed ones among them.
  In every row the percentage is the completed count over the total times 100 when the
  total is positive and 0 when the total is 0, and it lies between 0 and 100.
\<close>

theorem projectProgress_percentage:
  "length (projectProgress projects tasks) = length projects \<and>
   (\<forall>p \<in> set projects. \<exists>r \<in> set (projectProgress projects tasks).
      pr_id r = proj_id p \<and>
      totalTasks r = length (filter (\<lambda>t. project t = Some (proj_id p)) tasks) \<and>
      completedTasks r
        = length (filter (\<lambda>t. status t = ''completed'')
                    (filter (\<lambda>t. project t = Some (proj_id p)) tasks))) \<and>
   (\<forall>r \<in> set (projectProgress projects tasks).
      (0 < totalTasks r \<longrightarrow>
         progressPercentage r = of_nat (completedTasks r) / of_nat (totalTasks r) * 100) \<and>
      (totalTasks r = 0 \<longrightarrow> progressPercentage r = 0) \<and>
      0 \<le> progressPercentage r \<and> progressPercentage r \<le> 100)"
proof -
  have s: "set (projectProgress projects tasks) = progress_row tasks ` set projects"
    by (simp add: projectProgress_def)
  have l: "length (projectProgress projects tasks) = length projects"
    by (simp add: projectProgress_def)
  have a: "\<forall>p \<in> set projects. \<exists>r \<in> set (projectProgress projects tasks).
      pr_id r = proj_id p \<and>
      totalTasks r = length (filter (\<lambda>t. project t = Some (proj_id p)) tasks) \<and>
      completedTasks r
        = length (filter (\<lambda>t. status t = ''completed'')
                    (filter (\<lambda>t. project t = Some (proj_id p)) tasks))"
    unfolding s using progress_row_facts by blast
  have b: "\<forall>r \<in> set (projectProgress projects tasks).
      (0 < totalTasks r \<longrightarrow>
         progressPercentage r = of_nat (completedTasks r) / of_nat (totalTasks r) * 100) \<and>
      (totalTasks r = 0 \<longrightarrow> progressPercentage r = 0) \<and>
      0 \<le> progressPercentage r \<and> progressPercentage r \<le> 100"
    unfolding s using progress_row_percentage progress_row_range by blast
  from l a b show ?thesis by blast
qed


theorem projectProgress_percentage_witness:
  "project_idle \<in> set [project_site, project_idle] \<and>
   project_site \<in> set [project_site, project_idle] \<and>
   (\<exists>r \<in> set (projectProgress [project_site, project_idle]
                     [task_site_done, task_site_open, task_dangling]).
      pr_id r = 8 \<and> totalTasks r = 0 \<and> completedTasks r = 0 \<and> progressPercentage r = 0) \<and>
   (\<exists>r \<in> set (projectProgress [project_site, project_idle]
                     [task_site_done, task_site_open, task_dangling]).
      pr_id r = 7 \<and> totalTasks r = 2 \<and> completedTasks r = 1 \<and> progressPercentage r = 50)"
proof -
  let ?ps = "[project_site, project_idle]"
  let ?ts = "[task_site_done, task_site_open, task_dangling]"
  note t = projectProgress_percentage [of ?ps ?ts]
  have m1: "project_idle \<in> set ?ps" and m2: "project_site \<in> set ?ps"
    by simp_all
  have n1: "length (filter (\<lambda>t. project t = Some (proj_id project_idle)) ?ts) = 0"
    and c1: "length (filter (\<lambda>t. status t = ''completed'')
               (filter (\<lambda>t. project t = Some (proj_id project_idle)) ?ts)) = 0"
    and n2: "length (filter (\<lambda>t. project t = Some (proj_id project_site)) ?ts) = 2"
    and c2: "length (filter (\<lambda>t. status t = ''completed'')
               (filter (\<lambda>t. project t = Some (proj_id project_site)) ?ts)) = 1"
    and i1: "proj_id project_idle = 8" and i2: "proj_id project_site = 7"
    by code_simp+
  from t m1 obtain r1 where r1: "r1 \<in> set (projectProgress ?ps ?ts)"
    "pr_id r1 = proj_id project_idle"
    "totalTasks r1 = length (filter (\<lambda>t. project t = Some (proj_id project_idle)) ?ts)"
    "completedTasks r1 = length (filter (\<lambda>t. status t = ''completed'')
               (filter (\<lambda>t. project t = Some (proj_id project_idle)) ?ts))"
    by blast
  from t r1(1) have "totalTasks r1 = 0 \<longrightarrow> progressPercentage r1 = 0"
    by blast
  with r1 n1 c1 i1 have e1: "\<exists>r \<in> set (projectProgress ?ps ?ts).
      pr_id r = 8 \<and> totalTasks r = 0 \<and> completedTasks r = 0 \<and> progressPercentage r = 0"
    by auto
  from t m2 obtain r2 where r2: "r2 \<in> set (projectProgress ?ps ?ts)"
    "pr_id r2 = proj_id project_site"
    "totalTasks r2 = length (filter (\<lambda>t. project t = Some (proj_id project_site)) ?ts)"
    "completedTasks r2 = length (filter (\<lambda>t. status t = ''completed'')
               (filter (\<lambda>t. project t = Some (proj_id project_site)) ?ts))"
    by blast
  from t r2(1) have "0 < totalTasks r2 \<longrightarrow>
      progressPercentage r2 = of_nat (completedTasks r2) / of_nat (totalTasks r2) * 100"
    by blast
  with r2 n2 c2 i2 have e2: "\<exists>r \<in> set (projectProgress ?ps ?ts).
      pr_id r = 7 \<and> totalTasks r = 2 \<and> completedTasks r = 1 \<and> progressPercentage r = 50"
    by auto
  from m1 m2 e1 e2 show ?thesis
    by blast
qed

section \<open>The priority distribution\<close>

lemma group_by_sizes:
  "sum_list (map (\<lambda>g. length (snd g)) (filter (\<lambda>g. P (fst g)) (group_by f xs)))
     = length (filter (\<lambda>x. P (f x)) xs)"
proof (induction f xs rule: group_by.induct)
  case (1 f)
  show ?case by simp
next
  case (2 f x xs)
  let ?same = "filter (\<lambda>y. f y = f x) xs"
  let ?rest = "filter (\<lambda>y. f y \<noteq> f x) xs"
  have ih: "sum_list (map (\<lambda>g. length (snd g)) (filter (\<lambda>g. P (fst g)) (group_by f ?rest)))
     = length (filter (\<lambda>x. P (f x)) ?rest)"
    by (rule "2.IH")
  have split: "length (filter (\<lambda>y. P (f y)) xs)
     = length (filter (\<lambda>y. P (f y) \<and> f y = f x) xs)
       + length (filter (\<lambda>y. P (f y) \<and> f y \<noteq> f x) xs)"
    by (induction xs) auto
  show ?case
  proof (cases "P (f x)")
    case True
    then have "filter (\<lambda>y. P (f y) \<and> f y = f x) xs = ?same"
      by (auto intro: filter_cong)
    with True ih split show ?thesis
      by (simp add: conj_commute)
  next
    case False
    then have "filter (\<lambda>y. P (f y) \<and> f y = f x) xs = []"
      by (auto simp: filter_empty_conv)
    with False ih split show ?thesis
      by (simp add: conj_commute)
  qed
qed

lemma priorityDistribution_ids:
  "map pb_id (priorityDistribution tasks)
     = map fst (group_by (\<lambda>c. fst (fst c)) (priority_status_cells tasks))"
  by (simp add: priorityDistribution_def case_prod_unfold)

lemma priority_status_cells_keys:
  "(\<lambda>c. fst (fst c)) ` set (priority_status_cells tasks) = priority ` set tasks"
proof -
  have "map fst (priority_status_cells tasks)
        = map fst (group_by (\<lambda>t. (priority t, status t)) tasks)"
    by (simp add: priority_status_cells_def case_prod_unfold)
  then have "fst ` set (priority_status_cells tasks) = (\<lambda>t. (priority t, status t)) ` set tasks"
    using group_by_keys [of "\<lambda>t. (priority t, status t)" tasks] by (metis set_map)
  then have "fst ` fst ` set (priority_status_cells tasks)
             = fst ` (\<lambda>t. (priority t, status t)) ` set tasks"
    by simp
  then show ?thesis
    by (simp add: image_image)
qed

lemma priorityDistribution_id_set:
  "set (map pb_id (priorityDistribution tasks)) = priority ` set tasks"
  using group_by_keys [of "\<lambda>c. fst (fst c)" "priority_status_cells tasks"]
  by (simp only: priorityDistribution_ids priority_status_cells_keys)

lemma priorityDistribution_distinct: "distinct (map pb_id (priorityDistribution tasks))"
  by (simp only: priorityDistribution_ids group_by_distinct)

lemma priorityDistribution_bucket:
  assumes "b \<in> set (priorityDistribution tasks)"
  shows "total b = sum_list (map snd (statusBreakdown b))"
    and "total b = length (filter (\<lambda>t. priority t = pb_id b) tasks)"
proof -
  from assms obtain p cells
    where pc: "(p, cells) \<in> set (group_by (\<lambda>c. fst (fst c)) (priority_status_cells tasks))"
      and b: "b = \<lparr> pb_id = p, statusBreakdown = map (\<lambda>c. (snd (fst c), snd c)) cells,
                    total = sum_list (map snd cells) \<rparr>"
    by (auto simp: priorityDistribution_def)
  from b show "total b = sum_list (map snd (statusBreakdown b))"
    by (simp add: comp_def)
  from group_by_members [OF pc]
  have cells: "cells = filter (\<lambda>c. fst (fst c) = p) (priority_status_cells tasks)"
    by blast
  have "sum_list (map snd cells)
        = sum_list (map (\<lambda>g. length (snd g))
            (filter (\<lambda>g. fst (fst g) = p) (group_by (\<lambda>t. (priority t, status t)) tasks)))"
    by (simp add: cells priority_status_cells_def filter_map comp_def case_prod_unfold)
  also have "\<dots> = length (filter (\<lambda>t. fst (priority t, status t) = p) tasks)"
    by (rule group_by_sizes [of "\<lambda>k. fst k = p" "\<lambda>t. (priority t, status t)" tasks])
  finally show "total b = length (filter (\<lambda>t. priority t = pb_id b) tasks)"
    using b by simp
qed

lemma distinct_once:
  "distinct (map f xs) \<Longrightarrow> k \<in> set (map f xs) \<Longrightarrow> length (filter (\<lambda>x. f x = k) xs) = 1"
proof (induction xs)
  case Nil
  then show ?case by simp
next
  case (Cons a xs)
  show ?case
  proof (cases "f a = k")
    case True
    with Cons.prems have "k \<notin> f ` set xs" by auto
    then have "filter (\<lambda>x. f x = k) xs = []"
      by (auto simp: filter_empty_conv)
    with True show ?thesis by simp
  next
    case False
    with Cons show ?thesis by auto
  qed
qed

text \<open>
  C8. In the cross-tabulation of priority and status every priority of a task has exactly
  one bucket, every bucket is the bucket of a priority that occurs, and the total of a
  bucket is the sum of the counts of its status breakdown, which is the number of tasks
  of that priority.
\<close>

theorem priorityDistribution_crosstab:
  "distinct (map pb_id (priorityDistribution tasks)) \<and>
   (\<forall>t \<in> set tasks.
      length (filter (\<lambda>b. pb_id b = priority t) (priorityDistribution tasks)) = 1) \<and>
   (\<forall>b \<in> set (priorityDistribution tasks).
      pb_id b \<in> priority ` set tasks \<and>
      total b = sum_list (map snd (statusBreakdown b)) \<and>
      total b = length (filter (\<lambda>t. priority t = pb_id b) tasks))"
proof -
  have once: "\<forall>t \<in> set tasks.
      length (filter (\<lambda>b. pb_id b = priority t) (priorityDistribution tasks)) = 1"
  proof
    fix t assume "t \<in> set tasks"
    then have "priority t \<in> set (map pb_id (priorityDistribution tasks))"
      by (simp only: priorityDistribution_id_set) simp
    with priorityDistribution_distinct [of tasks]
    show "length (filter (\<lambda>b. pb_id b = priority t) (priorityDistribution tasks)) = 1"
      by (rule distinct_once)
  qed
  have ids: "\<forall>b \<in> set (priorityDistribution tasks). pb_id b \<in> priority ` set tasks"
    using priorityDistribution_id_set [of tasks] by auto
  from once ids priorityDistribution_distinct [of tasks] priorityDistribution_bucket [of _ tasks]
  show ?thesis by blast
qed

theorem priorityDistribution_crosstab_witness:
  "task_over \<in> set [task_site_done, task_site_open, task_under, task_over] \<and>
   length (filter (\<lambda>b. pb_id b = ''low'')
             (priorityDistribution [task_site_done, task_site_open, task_under, task_over])) = 1 \<and>
   (\<exists>b \<in> set (priorityDistribution [task_site_done, task_site_open, task_under, task_over]).
      pb_id b = ''high'' \<and> total b = 3 \<and> sum_list (map snd (statusBreakdown b)) = 3)"
proof -
  let ?ts = "[task_site_done, task_site_open, task_under, task_over]"
  note t = priorityDistribution_crosstab [of ?ts]
  have m1: "task_over \<in> set ?ts" and m2: "task_under \<in> set ?ts"
    by simp_all
  have p1: "priority task_over = ''low''" and p2: "priority task_under = ''high''"
    and n: "length (filter (\<lambda>t. priority t = ''high'') ?ts) = 3"
    by code_simp+
  from t m1 have "length (filter (\<lambda>b. pb_id b = priority task_over) (priorityDistribution ?ts)) = 1"
    by blast
  then have a: "length (filter (\<lambda>b. pb_id b = ''low'') (priorityDistribution ?ts)) = 1"
    by (simp only: p1)
  from t m2 have "length (filter (\<lambda>b. pb_id b = priority task_under) (priorityDistribution ?ts)) = 1"
    by blast
  then have "filter (\<lambda>b. pb_id b = ''high'') (priorityDistribution ?ts) \<noteq> []"
    by (simp only: p2) auto
  then obtain b where b: "b \<in> set (priorityDistribution ?ts)" "pb_id b = ''high''"
    by (auto simp: filter_empty_conv)
  from t b(1) have "total b = sum_list (map snd (statusBreakdown b))"
    and "total b = length (filter (\<lambda>t. priority t = pb_id b) ?ts)"
    by blast+
  with b n have "\<exists>b \<in> set (priorityDistribution ?ts).
      pb_id b = ''high'' \<and> total b = 3 \<and> sum_list (map snd (statusBreakdown b)) = 3"
    by auto
  with m1 a show ?thesis
    by blast
qed

section \<open>The recent activity\<close>

lemma projectName_of_entry:
  "projectName (activity_entry projects t)
     = (case project t of
          None \<Rightarrow> None
        | Some pid \<Rightarrow> map_option proj_name (find (\<lambda>p. proj_id p = pid) projects))"
proof (cases "project t")
  case None
  then show ?thesis
    by (simp add: activity_entry_def lookup_projects_def arrayElemAt0_def)
next
  case (Some pid)
  have "arrayElemAt0 (map proj_name (filter (\<lambda>p. proj_id p = pid) projects))
        = map_option proj_name (find (\<lambda>p. proj_id p = pid) projects)"
    by (induction projects) (simp_all add: arrayElemAt0_def)
  with Some show ?thesis
    by (simp add: activity_entry_def lookup_projects_def)
qed

lemma recent_sorted:
  "sorted_wrt (\<lambda>a b. b \<le> a) (map ae_updatedAt (recentActivity startDate projects tasks))"
proof -
  let ?zs = "sort_key (\<lambda>t. - updatedAt t) (filter (\<lambda>t. startDate \<le> updatedAt t) tasks)"
  have "sorted (map (\<lambda>t. - updatedAt t) ?zs)"
    by (rule sorted_sort_key)
  then have "sorted_wrt (\<lambda>x y. updatedAt y \<le> updatedAt x) ?zs"
    by (simp add: sorted_wrt_map)
  then have "sorted_wrt (\<lambda>x y. updatedAt y \<le> updatedAt x) (take 20 ?zs)"
    by (rule sorted_wrt_take)
  then show ?thesis
    by (simp add: recentActivity_def sorted_wrt_map activity_entry_def)
qed

text \<open>
  C9, as the code has it. The activity feed has at most 20 entries, in descending order of
  \<open>updatedAt\<close>; every entry is the projection of a task updated at or after the start
  of the window; its project name is the name of the first project with the referenced
  identifier, and the field has no value at all (it is not the empty string) when the task
  refers to no project or to a project that does not exist.
\<close>

theorem recentActivity_feed:
  "length (recentActivity startDate projects tasks) \<le> 20 \<and>
   sorted_wrt (\<lambda>a b. b \<le> a) (map ae_updatedAt (recentActivity startDate projects tasks)) \<and>
   (\<forall>e \<in> set (recentActivity startDate projects tasks).
      \<exists>t \<in> set tasks.
        startDate \<le> updatedAt t \<and>
        ae_id e = task_id t \<and> ae_title e = title t \<and> ae_status e = status t \<and>
        ae_priority e = priority t \<and> ae_updatedAt e = updatedAt t \<and>
        projectName e
          = (case project t of
               None \<Rightarrow> None
             | Some pid \<Rightarrow> map_option proj_name (find (\<lambda>p. proj_id p = pid) projects)))"
proof -
  have len: "length (recentActivity startDate projects tasks) \<le> 20"
    by (simp add: recentActivity_def)
  have ent: "\<forall>e \<in> set (recentActivity startDate projects tasks).
      \<exists>t \<in> set tasks.
        startDate \<le> updatedAt t \<and>
        ae_id e = task_id t \<and> ae_title e = title t \<and> ae_status e = status t \<and>
        ae_priority e = priority t \<and> ae_updatedAt e = updatedAt t \<and>
        projectName e
          = (case project t of
               None \<Rightarrow> None
             | Some pid \<Rightarrow> map_option proj_name (find (\<lambda>p. proj_id p = pid) projects))"
  proof
    fix e assume "e \<in> set (recentActivity startDate projects tasks)"
    then obtain t
      where t: "t \<in> set (take 20 (sort_key (\<lambda>t. - updatedAt t)
                                (filter (\<lambda>t. startDate \<le> updatedAt t) tasks)))"
        and e: "e = activity_entry projects t"
      by (auto simp: recentActivity_def)
    from t have "t \<in> set (sort_key (\<lambda>t. - updatedAt t)
                            (filter (\<lambda>t. startDate \<le> updatedAt t) tasks))"
      by (rule in_set_takeD)
    then have w: "t \<in> set tasks" "startDate \<le> updatedAt t"
      by simp_all
    have f: "ae_id e = task_id t \<and> ae_title e = title t \<and> ae_status e = status t \<and>
        ae_priority e = priority t \<and> ae_updatedAt e = updatedAt t"
      by (simp add: e activity_entry_def)
    from w f projectName_of_entry [of projects t] e
    show "\<exists>t \<in> set tasks.
        startDate \<le> updatedAt t \<and>
        ae_id e = task_id t \<and> ae_title e = title t \<and> ae_status e = status t \<and>
        ae_priority e = priority t \<and> ae_updatedAt e = updatedAt t \<and>
        projectName e
          = (case project t of
               None \<Rightarrow> None
             | Some pid \<Rightarrow> map_option proj_name (find (\<lambda>p. proj_id p = pid) projects))"
      by blast
  qed
  from len recent_sorted [of startDate projects tasks] ent show ?thesis
    by blast
qed

theorem recentActivity_feed_witness:
  "\<lparr> ae_id = 6, ae_title = ''copy'', ae_status = ''todo'', ae_priority = ''high'',
      ae_updatedAt = 120, projectName = Some ''site'' \<rparr>
     \<in> set (recentActivity 95 [project_site, project_idle]
              [task_site_done, task_site_open, task_dangling, task_under]) \<and>
   length (recentActivity 95 [project_site, project_idle]
             [task_site_done, task_site_open, task_dangling, task_under]) \<le> 20 \<and>
   (\<exists>t \<in> set [task_site_done, task_site_open, task_dangling, task_under].
      95 \<le> updatedAt t \<and> task_id t = 6 \<and>
      (case project t of
         None \<Rightarrow> None
       | Some pid \<Rightarrow> map_option proj_name (find (\<lambda>p. proj_id p = pid) [project_site, project_idle]))
      = Some ''site'')"
proof -
  let ?ps = "[project_site, project_idle]"
  let ?ts = "[task_site_done, task_site_open, task_dangling, task_under]"
  let ?e = "\<lparr> ae_id = 6, ae_title = ''copy'', ae_status = ''todo'', ae_priority = ''high'',
      ae_updatedAt = 120, projectName = Some ''site'' \<rparr>"
  note t = recentActivity_feed [of 95 ?ps ?ts]
  have m: "?e \<in> set (recentActivity 95 ?ps ?ts)"
    by code_simp
  from t have len: "length (recentActivity 95 ?ps ?ts) \<le> 20"
    by blast
  from t m obtain u where u: "u \<in> set ?ts" "95 \<le> updatedAt u" "ae_id ?e = task_id u"
    "projectName ?e = (case project u of
         None \<Rightarrow> None
       | Some pid \<Rightarrow> map_option proj_name (find (\<lambda>p. proj_id p = pid) ?ps))"
    by blast
  from u have "\<exists>t \<in> set ?ts. 95 \<le> updatedAt t \<and> task_id t = 6 \<and>
      (case project t of
         None \<Rightarrow> None
       | Some pid \<Rightarrow> map_option proj_name (find (\<lambda>p. proj_id p = pid) ?ps))
      = Some ''site''"
    by (intro bexI [of _ u]) simp_all
  with m len show ?thesis
    by blast
qed

text \<open>
  C9, as the claim states it, fails: the entry of a task with a dangling reference, and
  that of a task without project, carry no project name, where the claim asks for the
  empty string.
\<close>

theorem recentActivity_no_project_name:
  "recentActivity 95 [project_site, project_idle]
     [task_site_done, task_site_open, task_dangling, task_under]
   = [\<lparr> ae_id = 6, ae_title = ''copy'', ae_status = ''todo'', ae_priority = ''high'',
        ae_updatedAt = 120, projectName = Some ''site'' \<rparr>,
      \<lparr> ae_id = 9, ae_title = ''orphan'', ae_status = ''review'', ae_priority = ''medium'',
        ae_updatedAt = 100, projectName = None \<rparr>] \<and>
   map projectName (recentActivity 0 [project_site, project_idle] [task_dangling, task_under])
   = [None, None] \<and>
   projectName (activity_entry [project_site, project_idle] task_dangling) \<noteq> Some '''' \<and>
   projectName (activity_entry [project_site, project_idle] task_under) \<noteq> Some ''''"
  by code_simp

section \<open>The bulk mutation\<close>

lemma js_or_update: "js_or (modifiedCount (UpdateResult m n)) (deletedCount (UpdateResult m n)) = (if n = 0 then None else Some n)"
  by (simp add: js_or_def)

lemma js_or_delete: "js_or (modifiedCount (DeleteResult n)) (deletedCount (DeleteResult n)) = Some n"
  by (simp add: js_or_def)

lemma matched_le:
  assumes "distinct (map task_id store)"
  shows "length (filter (\<lambda>t. task_id t \<in> set ids) store) \<le> length ids"
proof -
  have d: "distinct (filter (\<lambda>i. i \<in> set ids) (map task_id store))"
    using assms by (rule distinct_filter)
  have "length (filter (\<lambda>t. task_id t \<in> set ids) store)
        = length (filter (\<lambda>i. i \<in> set ids) (map task_id store))"
    by (simp add: filter_map comp_def)
  also have "\<dots> = card (set (filter (\<lambda>i. i \<in> set ids) (map task_id store)))"
    using distinct_card [OF d] by simp
  also have "\<dots> \<le> card (set ids)"
    by (rule card_mono) auto
  also have "\<dots> \<le> length ids"
    by (rule card_length)
  finally show ?thesis .
qed

lemma update_branch_bound:
  assumes "distinct (map task_id store)"
    and "update_branch opn err upds field tv upd ids c store = Inr (r, c', store')"
    and "res_data r = Some d" and "affectedCount d = Some n"
  shows "n \<le> length ids"
proof -
  have m: "length (filter (\<lambda>t. P t) (filter (\<lambda>t. task_id t \<in> set ids) store)) \<le> length ids" for P
    using matched_le [OF assms(1), of ids]
    by (rule order_trans [OF length_filter_le])
  from assms(2-4) show ?thesis
    using m
    by (auto simp: update_branch_def bad_request_def bulk_ok_def updateMany_def newDate_def
        js_or_def Let_def split: option.splits if_splits)
qed

lemma bulk_affected_bound:
  assumes "distinct (map task_id store)"
    and "bulkUpdateTasks b c store = (r, c', store')"
    and "taskIds b = Some ids"
    and "res_data r = Some d" and "affectedCount d = Some n"
  shows "n \<le> length ids"
proof (cases "bulk_try b c store")
  case (Inl e)
  with assms(2,4) show ?thesis
    by (auto simp: bulkUpdateTasks_def server_error_def)
next
  case (Inr x)
  with assms(2) have t: "bulk_try b c store = Inr (r, c', store')"
    by (simp add: bulkUpdateTasks_def)
  from t assms(3) consider
    (bad) "res_data r = None"
    | (upd1) "update_branch ''update-status'' ''Status is required for status update''
               (updates b) u_status truthy_string set_status ids c store = Inr (r, c', store')"
    | (upd2) "update_branch ''update-priority'' ''Priority is required for priority update''
               (updates b) u_priority truthy_string set_priority ids c store = Inr (r, c', store')"
    | (upd3) "update_branch ''assign-project'' ''Project is required for project assignment''
               (updates b) u_project truthy_id set_project ids c store = Inr (r, c', store')"
    | (del) "r = bulk_ok ''delete'' (fst (deleteMany ids store)) ids"
    by (auto simp: bulk_try_def bad_request_def Let_def split: if_splits prod.splits)
  then show ?thesis
  proof cases
    case bad
    with assms(4) show ?thesis by simp
  next
    case upd1
    from update_branch_bound [OF assms(1) upd1 assms(4,5)] show ?thesis .
  next
    case upd2
    from update_branch_bound [OF assms(1) upd2 assms(4,5)] show ?thesis .
  next
    case upd3
    from update_branch_bound [OF assms(1) upd3 assms(4,5)] show ?thesis .
  next
    case del
    with assms(4,5) matched_le [OF assms(1), of ids] show ?thesis
      by (auto simp: bulk_ok_def deleteMany_def js_or_def)
  qed
qed

lemma bulk_update_scenario:
  "map_option affectedCount
     (res_data (fst (bulkUpdateTasks (request ''update-priority'' (Some priority_update) [1, 42, 2])
                       ticking [task_under, task_over])))
   = Some (Some 2)"
  by code_simp

text \<open>
  C4. When none of the identifiers exists, the three update operations succeed with status
  200 but their \<open>affectedCount\<close> is undefined, not 0: the count is taken as
  \<open>modifiedCount || deletedCount\<close>, a modified count of 0 is falsy, and an update result
  has no deleted count. Only the delete operation answers 0.
\<close>

theorem bulk_update_affectedCount_undefined:
  "map (\<lambda>b. map_option affectedCount
               (res_data (fst (bulkUpdateTasks b ticking [task_under, task_over]))))
     [request ''update-status'' (Some status_update) [41, 42],
      request ''update-priority'' (Some priority_update) [41, 42],
      request ''assign-project'' (Some project_update) [41, 42],
      request ''delete'' None [41, 42]]
   = [Some None, Some None, Some None, Some (Some 0)] \<and>
   map (\<lambda>b. res_status (fst (bulkUpdateTasks b ticking [task_under, task_over])))
     [request ''update-status'' (Some status_update) [41, 42],
      request ''update-priority'' (Some priority_update) [41, 42],
      request ''assign-project'' (Some project_update) [41, 42],
      request ''delete'' None [41, 42]]
   = [200, 200, 200, 200]"
  by code_simp

lemma bulk_update_missing_field_is_400:
  "bulkUpdateTasks (request ''update-status'' (Some (u\<lparr>u_status := None\<rparr>)) (i # ids)) c store
     = (bad_request ''Status is required for status update'' None, c, store) \<and>
   bulkUpdateTasks (request ''update-priority'' (Some (u\<lparr>u_priority := None\<rparr>)) (i # ids)) c store
     = (bad_request ''Priority is required for priority update'' None, c, store) \<and>
   bulkUpdateTasks (request ''assign-project'' (Some (u\<lparr>u_project := None\<rparr>)) (i # ids)) c store
     = (bad_request ''Project is required for project assignment'' None, c, store) \<and>
   res_status (bad_request e m) = 400"
  by (simp add: bulkUpdateTasks_def bulk_try_def request_def update_branch_def bad_request_def)

text \<open>
  C5. With a non-empty identifier list and no \<open>updates\<close> object at all, each of the three
  update operations ends in the handler's \<open>catch\<close>: reading the required field throws, the
  response has status 500, not 400. Nothing is written and the clock is not read.
\<close>

theorem bulk_update_absent_updates_is_500:
  "bulkUpdateTasks (request ''update-status'' None (i # ids)) c store
     = (server_error ''Failed to perform bulk update'' (Thrown TypeError), c, store) \<and>
   bulkUpdateTasks (request ''update-priority'' None (i # ids)) c store
     = (server_error ''Failed to perform bulk update'' (Thrown TypeError), c, store) \<and>
   bulkUpdateTasks (request ''assign-project'' None (i # ids)) c store
     = (server_error ''Failed to perform bulk update'' (Thrown TypeError), c, store) \<and>
   res_status (server_error ''Failed to perform bulk update'' (Thrown TypeError)) = 500"
  by (simp add: bulkUpdateTasks_def bulk_try_def request_def update_branch_def server_error_def)

section \<open>The time-tracking report\<close>

text \<open>
  C6. A task with an estimate of 0 hours is not left out of the time-tracking report. It
  passes the \<open>$match\<close> stage, which only asks that both hour fields exist; the
  projection then divides by its estimate, the database rejects the aggregation, and the
  handler answers the whole request with status 500 in both formats. The report that leaves
  the task out and keeps the other task is not what the handler returns.
\<close>

theorem time_tracking_zero_estimate_rejected:
  "time_tracking_match no_filter [task_under, task_zero_estimate]
     = [(task_under, 10, 5), (task_zero_estimate, 0, 5)] \<and>
   time_tracking no_filter [task_under, task_zero_estimate] = Inl DivideByZero \<and>
   generateReport_time_tracking str ''json'' no_filter c [task_under, task_zero_estimate]
     = (ReportFailure 500 ''Failed to generate report'' (ErrorMessage (Rejected DivideByZero)), c) \<and>
   generateReport_time_tracking str ''csv'' no_filter c [task_under, task_zero_estimate]
     = (ReportFailure 500 ''Failed to generate report'' (ErrorMessage (Rejected DivideByZero)), c) \<and>
   time_tracking_excluding_zero no_filter [task_under, task_zero_estimate]
     = Inr [\<lparr> tr_id = 1, tr_title = ''draft'', tr_estimatedHours = 10, tr_actualHours = 5,
              variance = - 5, variancePercent = - 50 \<rparr>]"
proof -
  have m: "time_tracking_match no_filter [task_under, task_zero_estimate]
     = [(task_under, 10, 5), (task_zero_estimate, 0, 5)]"
    by code_simp
  have r: "time_tracking no_filter [task_under, task_zero_estimate] = Inl DivideByZero"
    by code_simp
  have x: "time_tracking_excluding_zero no_filter [task_under, task_zero_estimate]
     = Inr [\<lparr> tr_id = 1, tr_title = ''draft'', tr_estimatedHours = 10, tr_actualHours = 5,
              variance = - 5, variancePercent = - 50 \<rparr>]"
    by code_simp
  from m r x show ?thesis
    by (simp add: generateReport_time_tracking_def)
qed

section \<open>The rendering as delimited text\<close>

lemma join_concat: "join sep (x # xs) = x @ concat (map (\<lambda>y. sep @ y) xs)"
  by (induction xs arbitrary: x) simp_all

lemma join_chars: "c \<in> set (join sep xs) \<Longrightarrow> c \<in> set sep \<or> (\<exists>x \<in> set xs. c \<in> set x)"
  by (induction sep xs rule: join.induct) auto

lemma join_member: "x \<in> set xs \<Longrightarrow> set x \<subseteq> set (join sep xs)"
  by (induction sep xs rule: join.induct) auto

lemma convertToCSV_Cons:
  "convertToCSV str (first # rest)
     = join '','' (map fst first)
       @ concat (map (\<lambda>item. [CHR 0x5C, CHR ''n''] @ csv_row str (map fst first) item)
                   (first # rest))"
  by (simp add: convertToCSV_def Let_def join_concat comp_def del: join.simps)

lemma convertToCSV_one_line:
  assumes keys: "\<forall>k \<in> set (map fst first). CHR 0x0A \<notin> set k"
    and cells: "\<forall>item \<in> set (first # rest). \<forall>k \<in> set (map fst first).
                  CHR 0x0A \<notin> set (csv_cell str (get_field item k))"
  shows "CHR 0x0A \<notin> set (convertToCSV str (first # rest))"
proof
  assume n: "CHR 0x0A \<in> set (convertToCSV str (first # rest))"
  have sep: "CHR 0x0A \<notin> set [CHR 0x5C, CHR ''n'']" and comma: "CHR 0x0A \<notin> set '',''"
    by simp_all
  have hdr: "CHR 0x0A \<notin> set (join '','' (map fst first))"
    using join_chars [of "CHR 0x0A" "'',''" "map fst first"] keys comma by blast
  have row: "CHR 0x0A \<notin> set (csv_row str (map fst first) item)"
    if "item \<in> set (first # rest)" for item
  proof
    assume "CHR 0x0A \<in> set (csv_row str (map fst first) item)"
    then have "\<exists>x \<in> set (map (\<lambda>header. csv_cell str (get_field item header)) (map fst first)).
                 CHR 0x0A \<in> set x"
      using join_chars [of "CHR 0x0A" "'',''"] comma unfolding csv_row_def by blast
    then obtain k where "k \<in> set (map fst first)"
      "CHR 0x0A \<in> set (csv_cell str (get_field item k))"
      by auto
    with cells that show False by blast
  qed
  from n have "CHR 0x0A \<in> set (join [CHR 0x5C, CHR ''n'']
      (join '','' (map fst first) # map (csv_row str (map fst first)) (first # rest)))"
    by (simp only: convertToCSV_def list.case Let_def)
  then have "\<exists>x \<in> set (join '','' (map fst first) # map (csv_row str (map fst first)) (first # rest)).
      CHR 0x0A \<in> set x"
    using join_chars [of "CHR 0x0A" "[CHR 0x5C, CHR ''n'']"] sep by blast
  then obtain x where x: "CHR 0x0A \<in> set x"
    "x = join '','' (map fst first) \<or> x \<in> set (map (csv_row str (map fst first)) (first # rest))"
    by auto
  with hdr row show False
    by auto
qed

lemma convertToCSV_keeps_newline:
  assumes "(\<exists>k \<in> set (map fst first). CHR 0x0A \<in> set k) \<or>
           (\<exists>item \<in> set (first # rest). \<exists>k \<in> set (map fst first).
              CHR 0x0A \<in> set (csv_cell str (get_field item k)))"
  shows "CHR 0x0A \<in> set (convertToCSV str (first # rest))"
proof -
  let ?keys = "map fst first"
  let ?lines = "join '','' ?keys # map (csv_row str ?keys) (first # rest)"
  have out: "convertToCSV str (first # rest) = join [CHR 0x5C, CHR ''n''] ?lines"
    by (simp only: convertToCSV_def list.case Let_def)
  from assms consider
    (key) k where "k \<in> set ?keys" "CHR 0x0A \<in> set k"
    | (cell) item k where "item \<in> set (first # rest)" "k \<in> set ?keys"
        "CHR 0x0A \<in> set (csv_cell str (get_field item k))"
    by blast
  then have "\<exists>line \<in> set ?lines. CHR 0x0A \<in> set line"
  proof cases
    case key
    from key(1) have "set k \<subseteq> set (join '','' ?keys)"
      by (rule join_member)
    with key(2) have "CHR 0x0A \<in> set (join '','' ?keys)"
      by blast
    then show ?thesis
      by simp
  next
    case cell
    from cell(2)
    have "csv_cell str (get_field item k)
            \<in> set (map (\<lambda>header. csv_cell str (get_field item header)) ?keys)"
      by auto
    then have "set (csv_cell str (get_field item k)) \<subseteq> set (csv_row str ?keys item)"
      unfolding csv_row_def by (rule join_member)
    with cell(3) have "CHR 0x0A \<in> set (csv_row str ?keys item)"
      by blast
    moreover from cell(1) have "csv_row str ?keys item \<in> set ?lines"
      by auto
    ultimately show ?thesis
      by blast
  qed
  then obtain line where l: "line \<in> set ?lines" "CHR 0x0A \<in> set line"
    by blast
  from l(1) have "set line \<subseteq> set (join [CHR 0x5C, CHR ''n''] ?lines)"
    by (rule join_member)
  with l(2) show ?thesis
    unfolding out by blast
qed

text \<open>
  C10, as the code has it. The rendering of no record is the empty string. The rendering
  of a non-empty list starts with the keys of its first record, in that record's order,
  joined by commas; every record then adds a backslash, the letter n, and its cells for
  those keys joined by commas. A string cell is the string between two double quotes,
  whatever it contains. The rendering writes no newline character of its own: when no key
  and no cell contains one, the output contains none and is a single line; when a key or
  a cell contains one, so does the output.
\<close>

theorem convertToCSV_rendering:
  "convertToCSV str [] = [] \<and>
   convertToCSV str (first # rest)
     = join '','' (map fst first)
       @ concat (map (\<lambda>item. [CHR 0x5C, CHR ''n''] @ csv_row str (map fst first) item)
                   (first # rest)) \<and>
   csv_cell str (FString s) = [CHR 0x22] @ s @ [CHR 0x22] \<and>
   ((\<forall>k \<in> set (map fst first). CHR 0x0A \<notin> set k) \<and>
    (\<forall>item \<in> set (first # rest). \<forall>k \<in> set (map fst first).
       CHR 0x0A \<notin> set (csv_cell str (get_field item k)))
    \<longrightarrow> CHR 0x0A \<notin> set (convertToCSV str (first # rest))) \<and>
   ((\<exists>k \<in> set (map fst first). CHR 0x0A \<in> set k) \<or>
    (\<exists>item \<in> set (first # rest). \<exists>k \<in> set (map fst first).
       CHR 0x0A \<in> set (csv_cell str (get_field item k)))
    \<longrightarrow> CHR 0x0A \<in> set (convertToCSV str (first # rest)))"
proof -
  have e: "convertToCSV str [] = []"
    by (simp add: convertToCSV_def)
  have q: "csv_cell str (FString s) = [CHR 0x22] @ s @ [CHR 0x22]"
    by (simp add: csv_cell_def)
  have a: "(\<forall>k \<in> set (map fst first). CHR 0x0A \<notin> set k) \<and>
    (\<forall>item \<in> set (first # rest). \<forall>k \<in> set (map fst first).
       CHR 0x0A \<notin> set (csv_cell str (get_field item k)))
    \<longrightarrow> CHR 0x0A \<notin> set (convertToCSV str (first # rest))"
    using convertToCSV_one_line [of first rest str] by blast
  have b: "(\<exists>k \<in> set (map fst first). CHR 0x0A \<in> set k) \<or>
    (\<exists>item \<in> set (first # rest). \<exists>k \<in> set (map fst first).
       CHR 0x0A \<in> set (csv_cell str (get_field item k)))
    \<longrightarrow> CHR 0x0A \<in> set (convertToCSV str (first # rest))"
    using convertToCSV_keeps_newline [of first rest str] by blast
  from e q a b convertToCSV_Cons [of str first rest]
  show ?thesis by blast
qed

theorem convertToCSV_rendering_witness:
  "list_all (\<lambda>k. CHR 0x0A \<notin> set k) (map fst first_record) \<and>
   list_all (\<lambda>item. list_all (\<lambda>k. CHR 0x0A \<notin> set (csv_cell no_numbers (get_field item k)))
                       (map fst first_record))
     [first_record, second_record] \<and>
   CHR 0x0A \<notin> set (convertToCSV no_numbers [first_record, second_record]) \<and>
   convertToCSV no_numbers [first_record, second_record]
     = ''title,hours'' @ [CHR 0x5C, CHR ''n''] @
       [CHR 0x22] @ ''say '' @ [CHR 0x22] @ ''hi'' @ [CHR 0x22] @ '', then go'' @ [CHR 0x22] @ '','' @
       [CHR 0x5C, CHR ''n''] @ [CHR 0x22] @ ''plain'' @ [CHR 0x22] @ '','' \<and>
   (\<exists>item \<in> set [multiline_record]. \<exists>k \<in> set (map fst multiline_record).
      CHR 0x0A \<in> set (csv_cell no_numbers (get_field item k))) \<and>
   CHR 0x0A \<in> set (convertToCSV no_numbers [multiline_record])"
proof -
  note t = convertToCSV_rendering [of no_numbers first_record "[second_record]"]
  have h: "(\<forall>k \<in> set (map fst (first_record)). CHR 0x0A \<notin> set k) \<and>
    (\<forall>item \<in> set ([first_record, second_record]).
       \<forall>k \<in> set (map fst (first_record)).
         CHR 0x0A \<notin> set (csv_cell no_numbers (get_field item k)))"
    by code_simp
  from t h have one: "CHR 0x0A \<notin> set (convertToCSV no_numbers ([first_record, second_record]))"
    by blast
  from t have "convertToCSV no_numbers ([first_record, second_record])
     = join '','' (map fst (first_record))
       @ concat (map (\<lambda>item. [CHR 0x5C, CHR ''n''] @ csv_row no_numbers (map fst (first_record)) item)
                   ([first_record, second_record]))"
    by blast
  also have "\<dots> = ''title,hours'' @ [CHR 0x5C, CHR ''n''] @
       [CHR 0x22] @ ''say '' @ [CHR 0x22] @ ''hi'' @ [CHR 0x22] @ '', then go'' @ [CHR 0x22] @ '','' @
       [CHR 0x5C, CHR ''n''] @ [CHR 0x22] @ ''plain'' @ [CHR 0x22] @ '',''"
    by code_simp
  finally have v: "convertToCSV no_numbers ([first_record, second_record])
     = ''title,hours'' @ [CHR 0x5C, CHR ''n''] @
       [CHR 0x22] @ ''say '' @ [CHR 0x22] @ ''hi'' @ [CHR 0x22] @ '', then go'' @ [CHR 0x22] @ '','' @
       [CHR 0x5C, CHR ''n''] @ [CHR 0x22] @ ''plain'' @ [CHR 0x22] @ '',''" .
  have l: "list_all (\<lambda>k. CHR 0x0A \<notin> set k) (map fst first_record)"
    "list_all (\<lambda>item. list_all (\<lambda>k. CHR 0x0A \<notin> set (csv_cell no_numbers (get_field item k)))
                       (map fst first_record))
       [first_record, second_record]"
    using h unfolding list_all_iff by blast+
  note t2 = convertToCSV_rendering [of no_numbers multiline_record "[]"]
  have h2: "\<exists>item \<in> set [multiline_record]. \<exists>k \<in> set (map fst multiline_record).
      CHR 0x0A \<in> set (csv_cell no_numbers (get_field item k))"
    by code_simp
  from t2 h2 have two: "CHR 0x0A \<in> set (convertToCSV no_numbers [multiline_record])"
    by blast
  from l one v h2 two show ?thesis
    by blast
qed

text \<open>
  C10, as the claim states it, fails in its last part: the output is not always a single
  line. A title with a newline character inside is rendered between the quotes as it is,
  and the newline stands in the output.
\<close>

theorem convertToCSV_embedded_newline:
  "convertToCSV no_numbers [multiline_record]
     = ''title'' @ [CHR 0x5C, CHR ''n''] @ [CHR 0x22] @ ''a'' @ [CHR 0x0A] @ ''b'' @ [CHR 0x22] \<and>
   CHR 0x0A \<in> set (convertToCSV no_numbers [multiline_record])"
  by code_simp

end
